theory Spec2Isabelle
  imports Main "HOL-Library.Word" "HOL-Library.AList"
begin

section \<open>Values, items and documents\<close>

text \<open>
  The handler of \<^verbatim>\<open>mongo.go\<close> stores \<^verbatim>\<open>resource.Item\<close> values in a MongoDB
  collection. Go's \<^verbatim>\<open>int\<close> and \<^verbatim>\<open>int64\<close> are 64-bit two's complement words (a 64-bit
  platform): \<open>+\<close> wraps, comparisons are signed (\<open><s\<close>). A \<^verbatim>\<open>time.Time\<close> is an
  instant, read as an integer. A value of type \<^verbatim>\<open>interface{}\<close> is one of the dynamic
  types below; \<^verbatim>\<open>primitive.ObjectID\<close> is a byte array.
\<close>

type_synonym go_int = "64 word"
type_synonym time = int

datatype val =
    VNil
  | VBool bool
  | VInt int
  | VString string
  | VObjectID "8 word list"

text \<open>\<^verbatim>\<open>ObjectID.Hex\<close>: two lower-case hexadecimal digits for each byte.\<close>

definition hexdigit :: "nat \<Rightarrow> char" where
  "hexdigit n = ''0123456789abcdef'' ! (n mod 16)"

definition Hex :: "8 word list \<Rightarrow> string" where
  "Hex bs = concat (map (\<lambda>b. [hexdigit (unat b div 16), hexdigit (unat b mod 16)]) bs)"

text \<open>\<^verbatim>\<open>fmt.Sprint\<close> on the dynamic types above (an integer in decimal).\<close>

fun decimal :: "nat \<Rightarrow> string" where
  "decimal n = (if n < 10 then [hexdigit n] else decimal (n div 10) @ [hexdigit (n mod 10)])"

declare decimal.simps [simp del]

fun Sprint :: "val \<Rightarrow> string" where
  "Sprint VNil = ''<nil>''"
| "Sprint (VBool b) = (if b then ''true'' else ''false'')"
| "Sprint (VInt i) = (if i < 0 then CHR ''-'' # decimal (nat (- i)) else decimal (nat i))"
| "Sprint (VString s) = s"
| "Sprint (VObjectID v) = ''ObjectID('' @ [CHR 0x22] @ Hex v @ [CHR 0x22] @ '')''"

text \<open>\<^verbatim>\<open>resource.Item\<close>, and \<^verbatim>\<open>mongoItem\<close> (lines 18-23), its fields prefixed with
  \<open>m_\<close>. A Go map is a partial function; the payload of a \<^verbatim>\<open>mongoItem\<close> may be the
  nil map (\<open>None\<close>) when it was just decoded. Ranging over a nil map runs no iteration,
  so the payload of an \<^verbatim>\<open>Item\<close> is read as a map.\<close>

record Item =
  ID :: val
  ETag :: string
  Updated :: time
  Payload :: "string \<rightharpoonup> val"

record mongoItem =
  m_ID :: val
  m_ETag :: string
  m_Updated :: time
  m_Payload :: "(string \<rightharpoonup> val) option"

text \<open>\<^verbatim>\<open>newMongoItem\<close> (lines 26-40): the loop copies every key but \<^verbatim>\<open>"id"\<close>.\<close>

definition newMongoItem :: "Item \<Rightarrow> mongoItem" where
  "newMongoItem i =
     (let p = (\<lambda>k. if k \<noteq> ''id'' then Payload i k else None)
      in \<lparr>m_ID = ID i, m_ETag = ETag i, m_Updated = Updated i, m_Payload = Some p\<rparr>)"

text \<open>\<^verbatim>\<open>newItem\<close> (lines 43-66).\<close>

definition newItem :: "mongoItem \<Rightarrow> Item" where
  "newItem i =
     (let payload = (case m_Payload i of None \<Rightarrow> Map.empty | Some p \<Rightarrow> p);
          payload = payload(''id'' \<mapsto> m_ID i);
          item = \<lparr>ID = m_ID i, ETag = m_ETag i, Updated = m_Updated i, Payload = payload\<rparr>
      in if ETag item = ''''
         then (case m_ID i of
                 VObjectID v \<Rightarrow> item\<lparr>ETag := ''p-'' @ Hex v\<rparr>
               | _ \<Rightarrow> item\<lparr>ETag := ''p-'' @ Sprint (m_ID i)\<rparr>)
         else item)"

section \<open>The collection and the query translation\<close>

text \<open>
  Errors are values. \<open>ErrConflict\<close> and \<open>ErrNotFound\<close> are the resource layer's;
  \<open>ErrNoDocuments\<close>, \<open>ErrDecodeToNil\<close>, \<open>ErrEmptySlice\<close> and a duplicate key error are
  the driver's;
  \<open>Canceled\<close> and \<open>DeadlineExceeded\<close> are what \<^verbatim>\<open>ctx.Err()\<close> returns once the context is
  done; any other failure of the store or of the query translation carries its message.
\<close>

datatype error =
    ErrConflict
  | ErrNotFound
  | ErrNoDocuments
  | ErrDecodeToNil
  | ErrEmptySlice
  | DuplicateKeyError
  | Canceled
  | DeadlineExceeded
  | StoreError string
  | QueryError string

definition IsDuplicateKeyError :: "error option \<Rightarrow> bool" where
  "IsDuplicateKeyError err = (err = Some DuplicateKeyError)"

text \<open>The context of a call, read through \<^verbatim>\<open>ctx.Err()\<close>: \<open>None\<close> while it is live.
  A call sees one context throughout.\<close>

datatype ctx = Ctx (Err: "error option")

text \<open>BSON documents as the code builds them with \<^verbatim>\<open>bson.M\<close>: a map is a list of
  keys with their values (\<open>AList.update\<close> assigns a key).\<close>

datatype bson =
    V val
  | M "(string \<times> bson) list"
  | A "bson list"

type_synonym bsonM = "(string \<times> bson) list"

text \<open>\<^verbatim>\<open>query.Query\<close> with its \<^verbatim>\<open>Window\<close> (a nil pointer is \<open>None\<close>); the code
  never looks into the predicate and the sort, whose types stay open.\<close>

record window =
  w_Offset :: go_int
  w_Limit :: go_int

record ('p, 'srt) query =
  Predicate :: 'p
  Sort :: 'srt
  Window :: "window option"

text \<open>\<^verbatim>\<open>resource.ItemList\<close>.\<close>

record ItemList =
  Total :: go_int
  Limit :: go_int
  Items :: "Item list"

text \<open>The driver's \<^verbatim>\<open>options.FindOptions\<close>, as far as the adapter sets them.\<close>

record FindOptions =
  opt_Sort :: bsonM
  opt_Skip :: "go_int option"
  opt_Limit :: "go_int option"
  opt_Projection :: "bsonM option"

definition SetProjection :: "FindOptions \<Rightarrow> bsonM \<Rightarrow> FindOptions" where
  "SetProjection options p = options\<lparr>opt_Projection := Some p\<rparr>"

text \<open>A \<^verbatim>\<open>*mongo.Cursor\<close>, by what the adapter observes of it: the documents
  \<^verbatim>\<open>All\<close> decodes into the slice it is given (the error of \<^verbatim>\<open>All\<close> is dropped at line
  266), and what \<^verbatim>\<open>Close\<close> returns. A \<^verbatim>\<open>*mongo.SingleResult\<close>, by its error: \<open>None\<close> when
  a document was found.\<close>

record Cursor =
  cur_All :: "mongoItem list"
  cur_Close :: "error option"

datatype SingleResult = SingleResult (sr_err: "error option")

text \<open>\<^verbatim>\<open>result.Decode(object)\<close> at lines 124 and 156, where \<^verbatim>\<open>object\<close> is a nil
  interface: the error of the result when it has one, and otherwise the driver's refusal
  to decode into nil.\<close>

definition Decode :: "SingleResult \<Rightarrow> error option" where
  "Decode result = (case sr_err result of Some e \<Rightarrow> Some e | None \<Rightarrow> Some ErrDecodeToNil)"

text \<open>
  The \<^verbatim>\<open>*mongo.Collection\<close> belongs to the driver, outside the repository. It is a
  parameter of the model: a record of the seven calls the adapter makes, each taking the
  context and its arguments and passing the state \<open>'s\<close> of the store along. The
  results the adapter discards (\<^verbatim>\<open>_\<close>) are left out; \<^verbatim>\<open>Find\<close> returns a cursor or
  nil, \<^verbatim>\<open>DeleteMany\<close> a result (its \<^verbatim>\<open>DeletedCount\<close>) or nil.
\<close>

record 's Collection =
  c_InsertMany :: "ctx \<Rightarrow> mongoItem list \<Rightarrow> 's \<Rightarrow> error option \<times> 's"
  c_UpdateByID :: "ctx \<Rightarrow> val \<Rightarrow> (string \<times> mongoItem) list \<Rightarrow> 's \<Rightarrow> error option \<times> 's"
  c_FindOne :: "ctx \<Rightarrow> bsonM \<Rightarrow> 's \<Rightarrow> SingleResult \<times> 's"
  c_DeleteOne :: "ctx \<Rightarrow> bsonM \<Rightarrow> 's \<Rightarrow> error option \<times> 's"
  c_Find :: "ctx \<Rightarrow> bsonM \<Rightarrow> FindOptions \<Rightarrow> 's \<Rightarrow> (Cursor option \<times> error option) \<times> 's"
  c_DeleteMany :: "ctx \<Rightarrow> bsonM \<Rightarrow> 's \<Rightarrow> (go_int option \<times> error option) \<times> 's"
  c_CountDocuments :: "ctx \<Rightarrow> bsonM \<Rightarrow> 's \<Rightarrow> (go_int \<times> error option) \<times> 's"

text \<open>\<^verbatim>\<open>Handler\<close> (line 69) and \<^verbatim>\<open>NewHandler\<close> (lines 72-79), which always resolves
  the collection.\<close>

type_synonym 's Handler = "ctx \<Rightarrow> error + 's Collection"

definition NewHandler :: "'s Collection \<Rightarrow> 's Handler" where
  "NewHandler collection = (\<lambda>ctx. Inr collection)"

text \<open>
  \<^verbatim>\<open>getQuery\<close>, \<^verbatim>\<open>getSort\<close>, \<^verbatim>\<open>applyWindow\<close> and \<^verbatim>\<open>selectIDs\<close> are functions of the
  package whose file is not among the sources: the adapter takes them as parameters.
\<close>

record ('p, 'srt) Translator =
  getQuery :: "('p, 'srt) query \<Rightarrow> error + bsonM"
  getSort :: "('p, 'srt) query \<Rightarrow> FindOptions"
  applyWindow :: "FindOptions \<Rightarrow> window option \<Rightarrow> FindOptions"
  selectIDs :: "ctx \<Rightarrow> Cursor option \<Rightarrow> error + val list"

section \<open>The adapter\<close>

definition HasPrefix :: "string \<Rightarrow> string \<Rightarrow> bool" where
  "HasPrefix s p = (take (length p) s = p)"

text \<open>Go's \<^verbatim>\<open>len\<close>, an \<^verbatim>\<open>int\<close>; a slice has fewer than \<open>2 ^ 63\<close> elements.\<close>

definition len :: "'a list \<Rightarrow> go_int" where
  "len xs = of_nat (length xs)"

text \<open>\<^verbatim>\<open>Insert\<close> (lines 82-100).\<close>

definition Insert :: "'s Handler \<Rightarrow> ctx \<Rightarrow> Item list \<Rightarrow> 's \<Rightarrow> error option \<times> 's" where
  "Insert m ctx items st =
     (let mItems = map newMongoItem items
      in case m ctx of
           Inl err \<Rightarrow> (Some err, st)
         | Inr c \<Rightarrow>
             (let (err, st) = c_InsertMany c ctx mItems st;
                  err = (if IsDuplicateKeyError err then Some ErrConflict else err)
              in if Err ctx \<noteq> None then (Err ctx, st) else (err, st)))"

text \<open>\<^verbatim>\<open>Update\<close> (lines 103-136). The selector \<open>s\<close> is built and then not used:
  the write at line 117 is \<^verbatim>\<open>UpdateByID\<close> on the identifier.\<close>

definition Update :: "'s Handler \<Rightarrow> ctx \<Rightarrow> Item \<Rightarrow> Item \<Rightarrow> 's \<Rightarrow> error option \<times> 's" where
  "Update m ctx item original st =
     (let mItem = newMongoItem item
      in case m ctx of
           Inl err \<Rightarrow> (Some err, st)
         | Inr c \<Rightarrow>
             (let s = [(''_id'', V (ID original))];
                  s = (if HasPrefix (ETag original) ''p-''
                       then AList.update ''_etag'' (M [(''$exists'', V (VBool False))]) s
                       else AList.update ''_etag'' (V (VString (ETag original))) s);
                  (err, st) = c_UpdateByID c ctx (ID original) [(''$set'', mItem)] st
              in if err = Some ErrNoDocuments
                 then (let (result, st) = c_FindOne c ctx [(''_id'', V (ID original))] st;
                           err = Decode result;
                           err = (if err = Some ErrNoDocuments then Some ErrNotFound
                                  else if Err ctx \<noteq> None then Err ctx
                                  else Some ErrConflict)
                       in (err, st))
                 else (err, st)))"

text \<open>\<^verbatim>\<open>Delete\<close> (lines 139-167).\<close>

definition Delete :: "'s Handler \<Rightarrow> ctx \<Rightarrow> Item \<Rightarrow> 's \<Rightarrow> error option \<times> 's" where
  "Delete m ctx item st =
     (case m ctx of
        Inl err \<Rightarrow> (Some err, st)
      | Inr c \<Rightarrow>
          (let s = [(''_id'', V (ID item))];
               s = (if HasPrefix (ETag item) ''p-''
                    then AList.update ''_etag'' (M [(''$exists'', V (VBool False))]) s
                    else AList.update ''_etag'' (V (VString (ETag item))) s);
               (err, st) = c_DeleteOne c ctx s st
           in if err = Some ErrNoDocuments
              then (let (result, st) = c_FindOne c ctx [(''_id'', V (ID item))] st;
                        err = Decode result
                    in if err = Some ErrNoDocuments then (Some ErrNotFound, st)
                       else if Err ctx \<noteq> None then (Err ctx, st)
                       else (Some ErrConflict, st))
              else (err, st)))"

text \<open>\<^verbatim>\<open>Clear\<close> (lines 174-220). The windowed branch either returns early (\<open>Inl\<close>) or
  replaces the filter; \<^verbatim>\<open>int(info.DeletedCount)\<close> converts between equal widths.\<close>

definition Clear ::
  "('p, 'srt) Translator \<Rightarrow> 's Handler \<Rightarrow> ctx \<Rightarrow> ('p, 'srt) query \<Rightarrow> 's \<Rightarrow> (go_int \<times> error option) \<times> 's" where
  "Clear tr m ctx q st =
     (case getQuery tr q of
        Inl err \<Rightarrow> ((0, Some err), st)
      | Inr qry \<Rightarrow>
          (case m ctx of
             Inl err \<Rightarrow> ((0, Some err), st)
           | Inr c \<Rightarrow>
               (let windowed =
                      (if Window q \<noteq> None
                       then (let options = getSort tr q;
                                 options = applyWindow tr options (Window q);
                                 options = SetProjection options [(''_id'', V (VInt 1))];
                                 ((request, err), st) = c_Find c ctx qry options st
                             in case err of
                                  Some e \<Rightarrow> Inl ((0, Some e), st)
                                | None \<Rightarrow>
                                    (case selectIDs tr ctx request of
                                       Inr ids \<Rightarrow> Inr ([(''_id'', M [(''$in'', A (map V ids))])], st)
                                     | Inl e \<Rightarrow> Inl ((0, Some e), st)))
                       else Inr (qry, st))
                in case windowed of
                     Inl early \<Rightarrow> early
                   | Inr (qry, st) \<Rightarrow>
                       (let ((info, err), st) = c_DeleteMany c ctx qry st;
                            err = (if err = None then Err ctx else err)
                        in case info of
                             None \<Rightarrow> ((0, err), st)
                           | Some DeletedCount \<Rightarrow> ((DeletedCount, err), st)))))"

text \<open>\<^verbatim>\<open>Count\<close> (lines 291-302); \<^verbatim>\<open>int(cnt)\<close> converts between equal widths.\<close>

definition Count ::
  "('p, 'srt) Translator \<Rightarrow> 's Handler \<Rightarrow> ctx \<Rightarrow> ('p, 'srt) query \<Rightarrow> 's \<Rightarrow> (go_int \<times> error option) \<times> 's" where
  "Count tr m ctx query st =
     (case getQuery tr query of
        Inl err \<Rightarrow> ((- 1, Some err), st)
      | Inr q \<Rightarrow>
          (case m ctx of
             Inl err \<Rightarrow> ((- 1, Some err), st)
           | Inr c \<Rightarrow>
               (let ((cnt, err), st) = c_CountDocuments c ctx q st
                in ((cnt, err), st))))"

text \<open>\<^verbatim>\<open>Find\<close> (lines 223-288). It returns a list (or nil) with an error (or nil),
  or panics: when the store hands back no cursor, \<^verbatim>\<open>mq.All\<close> at line 266 is a call on a
  nil \<^verbatim>\<open>*mongo.Cursor\<close>. The error returned at line 287 is the one of line 251.\<close>

datatype 'a outcome = Returned 'a | Panicked

definition Find ::
  "('p, 'srt) Translator \<Rightarrow> 's Handler \<Rightarrow> ctx \<Rightarrow> ('p, 'srt) query \<Rightarrow> 's
     \<Rightarrow> (ItemList option \<times> error option) outcome \<times> 's" where
  "Find tr m ctx q st =
     (case (case Window q of None \<Rightarrow> None | Some w \<Rightarrow> if w_Limit w = 0 then Some w else None) of
        Some w \<Rightarrow>
          (let ((n, err), st) = Count tr m ctx q st
           in case err of
                Some e \<Rightarrow> (Returned (None, Some e), st)
              | None \<Rightarrow> (Returned (Some \<lparr>Total = n, Limit = w_Limit w, Items = []\<rparr>, err), st))
      | None \<Rightarrow>
          (case getQuery tr q of
             Inl err \<Rightarrow> (Returned (None, Some err), st)
           | Inr qry \<Rightarrow>
               (let srt = getSort tr q;
                    srt = applyWindow tr srt (Window q)
                in case m ctx of
                     Inl err \<Rightarrow> (Returned (None, Some err), st)
                   | Inr c \<Rightarrow>
                       (let ((mq, err), st) = c_Find c ctx qry srt st;
                            limit = (case Window q of None \<Rightarrow> - 1 | Some w \<Rightarrow> w_Limit w);
                            list = \<lparr>Total = - 1, Limit = limit, Items = []\<rparr>
                        in case mq of
                             None \<Rightarrow> (Panicked, st)
                           | Some cur \<Rightarrow>
                               (let items = cur_All cur;
                                    list = list\<lparr>Items := Items list @ map newItem items\<rparr>
                                in case cur_Close cur of
                                     Some e \<Rightarrow> (Returned (None, Some e), st)
                                   | None \<Rightarrow>
                                       (let list =
                                              (if limit <s 0 \<or> len (Items list) <s limit
                                               then (case (case Window q of
                                                             None \<Rightarrow> None
                                                           | Some w \<Rightarrow> if 0 <s w_Offset w then Some w else None) of
                                                       Some w \<Rightarrow>
                                                         (if 0 <s len (Items list)
                                                          then list\<lparr>Total := w_Offset w + len (Items list)\<rparr>
                                                          else list)
                                                     | None \<Rightarrow> list\<lparr>Total := len (Items list)\<rparr>)
                                               else list)
                                        in (Returned (Some list, err), st)))))))"

section \<open>A reference collection\<close>

text \<open>
  The theorems below hold for every collection. Their witnesses and the concrete runs
  use one collection: documents in a list, in insertion order, and a log of the requests
  it received. It answers as the driver does: an update or a delete that matches no
  document writes nothing and reports no error (the driver reports the zero count in the
  result the adapter discards; \<open>ErrNoDocuments\<close> comes from a \<^verbatim>\<open>SingleResult\<close> only), an
  insert of no document is refused with \<open>ErrEmptySlice\<close> before any request, a duplicate
  identifier gives a duplicate key error, and a limit of 0 is no limit (the comment at
  lines 224-225). It never looks at the context: it stands for a store whose reply was on
  its way when the context was cancelled. A stored document may lack its version field
  (\<open>d_etag = None\<close>) and may have no field beyond the three of \<^verbatim>\<open>mongoItem\<close>
  (\<open>d_payload = None\<close>).
\<close>

record stored =
  d_id :: val
  d_etag :: "string option"
  d_updated :: time
  d_payload :: "(string \<rightharpoonup> val) option"

datatype request =
    InsertManyReq "mongoItem list"
  | UpdateByIDReq val "(string \<times> mongoItem) list"
  | FindOneReq bsonM
  | DeleteOneReq bsonM
  | FindReq bsonM FindOptions
  | DeleteManyReq bsonM
  | CountDocumentsReq bsonM

record store =
  docs :: "stored list"
  log :: "request list"

definition encode :: "mongoItem \<Rightarrow> stored" where
  "encode i = \<lparr>d_id = m_ID i, d_etag = Some (m_ETag i), d_updated = m_Updated i, d_payload = m_Payload i\<rparr>"

definition decode :: "stored \<Rightarrow> mongoItem" where
  "decode d = \<lparr>m_ID = d_id d, m_ETag = (case d_etag d of None \<Rightarrow> [] | Some e \<Rightarrow> e),
               m_Updated = d_updated d, m_Payload = d_payload d\<rparr>"

definition field :: "stored \<Rightarrow> string \<Rightarrow> val option" where
  "field d k =
     (if k = ''_id'' then Some (d_id d)
      else if k = ''_etag'' then map_option VString (d_etag d)
      else if k = ''_updated'' then Some (VInt (d_updated d))
      else (case d_payload d of None \<Rightarrow> None | Some p \<Rightarrow> p k))"

text \<open>The conditions the adapter itself writes: equality with a value, \<^verbatim>\<open>$exists\<close> and
  \<^verbatim>\<open>$in\<close>. A filter matches when each of its keys does.\<close>

fun cond_holds :: "bson \<Rightarrow> val option \<Rightarrow> bool" where
  "cond_holds (V v) fld = (fld = Some v)"
| "cond_holds (M [(k, V (VBool b))]) fld = (k = ''$exists'' \<and> (fld \<noteq> None) = b)"
| "cond_holds (M [(k, A vs)]) fld =
     (k = ''$in'' \<and> (case fld of None \<Rightarrow> False | Some v \<Rightarrow> V v \<in> set vs))"
| "cond_holds _ fld = False"

definition matches :: "bsonM \<Rightarrow> stored \<Rightarrow> bool" where
  "matches f d = list_all (\<lambda>(k, c). cond_holds c (field d k)) f"

text \<open>Sorting is a stable insertion sort, on each key of the sort document from the
  last to the first; integers are ordered, other values are left where they are. Then the
  skip and the limit.\<close>

fun val_le :: "val option \<Rightarrow> val option \<Rightarrow> bool" where
  "val_le (Some (VInt a)) (Some (VInt b)) = (a \<le> b)"
| "val_le _ _ = True"

fun insert_by :: "('a \<Rightarrow> 'a \<Rightarrow> bool) \<Rightarrow> 'a \<Rightarrow> 'a list \<Rightarrow> 'a list" where
  "insert_by le x [] = [x]"
| "insert_by le x (y # ys) = (if le x y then x # y # ys else y # insert_by le x ys)"

definition sort_by :: "('a \<Rightarrow> 'a \<Rightarrow> bool) \<Rightarrow> 'a list \<Rightarrow> 'a list" where
  "sort_by le xs = foldr (insert_by le) xs []"

definition key_le :: "string \<times> bson \<Rightarrow> stored \<Rightarrow> stored \<Rightarrow> bool" where
  "key_le kd a b =
     (case kd of (k, dir) \<Rightarrow>
        if dir = V (VInt (- 1)) then val_le (field b k) (field a k)
        else val_le (field a k) (field b k))"

definition sort_docs :: "bsonM \<Rightarrow> stored list \<Rightarrow> stored list" where
  "sort_docs keys ds = foldr (\<lambda>kd ds. sort_by (key_le kd) ds) keys ds"

definition page :: "FindOptions \<Rightarrow> 'a list \<Rightarrow> 'a list" where
  "page options xs =
     (let xs = (case opt_Skip options of None \<Rightarrow> xs | Some k \<Rightarrow> drop (nat (sint k)) xs)
      in case opt_Limit options of
           None \<Rightarrow> xs
         | Some l \<Rightarrow> if l = 0 then xs else take (nat \<bar>sint l\<bar>) xs)"

definition project :: "bsonM option \<Rightarrow> stored \<Rightarrow> stored" where
  "project p d =
     (if p = Some [(''_id'', V (VInt 1))]
      then \<lparr>d_id = d_id d, d_etag = None, d_updated = 0, d_payload = None\<rparr>
      else d)"

definition found :: "bsonM \<Rightarrow> FindOptions \<Rightarrow> stored list \<Rightarrow> stored list" where
  "found f options ds = page options (sort_docs (opt_Sort options) (filter (matches f) ds))"

text \<open>\<^verbatim>\<open>$set\<close> writes the three fields of the \<^verbatim>\<open>mongoItem\<close> and its inlined payload
  over the document and keeps the other fields.\<close>

definition set_fields :: "mongoItem \<Rightarrow> stored \<Rightarrow> stored" where
  "set_fields i d =
     \<lparr>d_id = m_ID i, d_etag = Some (m_ETag i), d_updated = m_Updated i,
      d_payload = Some ((case d_payload d of None \<Rightarrow> Map.empty | Some p \<Rightarrow> p)
                       ++ (case m_Payload i of None \<Rightarrow> Map.empty | Some p \<Rightarrow> p))\<rparr>"

fun remove_first :: "('a \<Rightarrow> bool) \<Rightarrow> 'a list \<Rightarrow> 'a list" where
  "remove_first P [] = []"
| "remove_first P (x # xs) = (if P x then xs else x # remove_first P xs)"

definition logged :: "request \<Rightarrow> store \<Rightarrow> store" where
  "logged r st = st\<lparr>log := log st @ [r]\<rparr>"

definition ref_InsertMany :: "ctx \<Rightarrow> mongoItem list \<Rightarrow> store \<Rightarrow> error option \<times> store" where
  "ref_InsertMany ctx items st =
     (if items = [] then (Some ErrEmptySlice, st)
      else (let st = logged (InsertManyReq items) st;
                ids = map m_ID items
            in if distinct ids \<and> set ids \<inter> set (map d_id (docs st)) = {}
               then (None, st\<lparr>docs := docs st @ map encode items\<rparr>)
               else (Some DuplicateKeyError, st)))"

definition ref_UpdateByID ::
  "ctx \<Rightarrow> val \<Rightarrow> (string \<times> mongoItem) list \<Rightarrow> store \<Rightarrow> error option \<times> store" where
  "ref_UpdateByID ctx id' u st =
     (let st = logged (UpdateByIDReq id' u) st
      in (None, st\<lparr>docs := map (\<lambda>d. if d_id d = id'
                                       then foldr (\<lambda>(k, i) d. if k = ''$set'' then set_fields i d else d) u d
                                       else d) (docs st)\<rparr>))"

definition ref_FindOne :: "ctx \<Rightarrow> bsonM \<Rightarrow> store \<Rightarrow> SingleResult \<times> store" where
  "ref_FindOne ctx f st =
     (let st = logged (FindOneReq f) st
      in if filter (matches f) (docs st) = []
         then (SingleResult (Some ErrNoDocuments), st)
         else (SingleResult None, st))"

definition ref_DeleteOne :: "ctx \<Rightarrow> bsonM \<Rightarrow> store \<Rightarrow> error option \<times> store" where
  "ref_DeleteOne ctx f st =
     (let st = logged (DeleteOneReq f) st
      in (None, st\<lparr>docs := remove_first (matches f) (docs st)\<rparr>))"

definition ref_Find ::
  "ctx \<Rightarrow> bsonM \<Rightarrow> FindOptions \<Rightarrow> store \<Rightarrow> (Cursor option \<times> error option) \<times> store" where
  "ref_Find ctx f options st =
     (let st = logged (FindReq f options) st;
          ds = map (project (opt_Projection options)) (found f options (docs st))
      in ((Some \<lparr>cur_All = map decode ds, cur_Close = None\<rparr>, None), st))"

definition ref_DeleteMany :: "ctx \<Rightarrow> bsonM \<Rightarrow> store \<Rightarrow> (go_int option \<times> error option) \<times> store" where
  "ref_DeleteMany ctx f st =
     (let st = logged (DeleteManyReq f) st
      in ((Some (len (filter (matches f) (docs st))), None),
          st\<lparr>docs := filter (\<lambda>d. \<not> matches f d) (docs st)\<rparr>))"

definition ref_CountDocuments :: "ctx \<Rightarrow> bsonM \<Rightarrow> store \<Rightarrow> (go_int \<times> error option) \<times> store" where
  "ref_CountDocuments ctx f st =
     (let st = logged (CountDocumentsReq f) st
      in ((len (filter (matches f) (docs st)), None), st))"

definition ref_collection :: "store Collection" where
  "ref_collection =
     \<lparr>c_InsertMany = ref_InsertMany, c_UpdateByID = ref_UpdateByID, c_FindOne = ref_FindOne,
      c_DeleteOne = ref_DeleteOne, c_Find = ref_Find, c_DeleteMany = ref_DeleteMany,
      c_CountDocuments = ref_CountDocuments\<rparr>"

text \<open>
  Modelled from the spec: \<^verbatim>\<open>getQuery\<close>, \<^verbatim>\<open>getSort\<close>, \<^verbatim>\<open>applyWindow\<close> and
  \<^verbatim>\<open>selectIDs\<close>, which the sources lack. The spec has the query translation a pure,
  deterministic rendering of the filter and of the sort into the store's own constructs
  (here the predicate and the sort are given in that form already), the window rendered
  into the store's skip and limit, and the identifiers of the read collected into a
  finite sequence.
\<close>

definition ref_translator :: "(bsonM, bsonM) Translator" where
  "ref_translator =
     \<lparr>getQuery = (\<lambda>q. Inr (Predicate q)),
      getSort = (\<lambda>q. \<lparr>opt_Sort = Sort q, opt_Skip = None, opt_Limit = None, opt_Projection = None\<rparr>),
      applyWindow = (\<lambda>options w. case w of
                        None \<Rightarrow> options
                      | Some w \<Rightarrow> options\<lparr>opt_Skip := Some (w_Offset w), opt_Limit := Some (w_Limit w)\<rparr>),
      selectIDs = (\<lambda>ctx request. case request of
                      None \<Rightarrow> Inl (StoreError ''no cursor'')
                    | Some cur \<Rightarrow> (case cur_Close cur of
                                    Some e \<Rightarrow> Inl e
                                  | None \<Rightarrow> Inr (map m_ID (cur_All cur))))\<rparr>"

section \<open>Example stores and queries\<close>

text \<open>Twelve documents, each with a rank and a kind; ten of them are of kind \<open>a\<close>.
  Every stored version tag is \<open>v1\<close>.\<close>

definition example_doc :: "int \<Rightarrow> int \<Rightarrow> string \<Rightarrow> stored" where
  "example_doc i r k =
     \<lparr>d_id = VInt i, d_etag = Some ''v1'', d_updated = 0,
      d_payload = Some [''rank'' \<mapsto> VInt r, ''kind'' \<mapsto> VString k]\<rparr>"

definition twelve_docs :: store where
  "twelve_docs =
     \<lparr>docs = [example_doc 1 7 ''a'', example_doc 2 1 ''a'', example_doc 3 8 ''a'',
              example_doc 4 2 ''b'', example_doc 5 9 ''a'', example_doc 6 3 ''a'',
              example_doc 7 10 ''a'', example_doc 8 4 ''a'', example_doc 9 11 ''b'',
              example_doc 10 5 ''a'', example_doc 11 12 ''a'', example_doc 12 6 ''a''],
      log = []\<rparr>"

text \<open>One document stored before version tags: it has no version field.\<close>

definition untagged_docs :: store where
  "untagged_docs =
     \<lparr>docs = [\<lparr>d_id = VInt 1, d_etag = None, d_updated = 0, d_payload = None\<rparr>], log = []\<rparr>"

definition by_rank :: "bsonM \<Rightarrow> window option \<Rightarrow> (bsonM, bsonM) query" where
  "by_rank f w = \<lparr>Predicate = f, Sort = [(''rank'', V (VInt 1))], Window = w\<rparr>"

definition example_item :: "int \<Rightarrow> string \<Rightarrow> Item" where
  "example_item i tag =
     \<lparr>ID = VInt i, ETag = tag, Updated = 1, Payload = [''id'' \<mapsto> VInt i, ''kind'' \<mapsto> VString ''c'']\<rparr>"

text \<open>A store that fails with the error it is given: its bulk delete removes the first
  matching document only and reports that count with the error, and its count reports
  the zero count with the error.\<close>

definition failing_collection :: "error \<Rightarrow> store Collection" where
  "failing_collection e =
     ref_collection
       \<lparr>c_DeleteMany :=
          (\<lambda>ctx f st. let st = logged (DeleteManyReq f) st
                      in ((Some (len (take 1 (filter (matches f) (docs st)))), Some e),
                          st\<lparr>docs := remove_first (matches f) (docs st)\<rparr>)),
        c_CountDocuments :=
          (\<lambda>ctx f st. ((0, Some e), logged (CountDocumentsReq f) st))\<rparr>"

section \<open>The item translator\<close>

lemma newItem_fields:
  "ID (newItem d) = m_ID d"
  "Updated (newItem d) = m_Updated d"
  "Payload (newItem d) = (case m_Payload d of None \<Rightarrow> Map.empty | Some p \<Rightarrow> p)(''id'' \<mapsto> m_ID d)"
  "ETag (newItem d) =
     (if m_ETag d = ''''
      then ''p-'' @ (case m_ID d of VObjectID v \<Rightarrow> Hex v | _ \<Rightarrow> Sprint (m_ID d))
      else m_ETag d)"
  by (simp_all add: newItem_def Let_def split: val.splits)

text \<open>
  C4. Translating an item to a document and back keeps the identifier and the timestamp,
  keeps the version tag unless it is empty, and keeps every payload field other than
  \<^verbatim>\<open>"id"\<close>; the document's payload has no \<^verbatim>\<open>"id"\<close>, and the item read back has it
  again, set to the identifier. So an item whose payload carries its identifier under
  \<^verbatim>\<open>"id"\<close> and whose tag is not empty comes back unchanged. A document with a nil
  payload is read as the payload holding the identifier alone, and a document with an
  empty version field gets the tag \<^verbatim>\<open>"p-"\<close> followed by the identifier as text (its
  \<^verbatim>\<open>Hex\<close> for an ObjectID, \<^verbatim>\<open>fmt.Sprint\<close> otherwise), never the empty tag.
\<close>

theorem item_round_trip:
  fixes I :: Item and d :: mongoItem
  shows
    "ID (newItem (newMongoItem I)) = ID I
     \<and> Updated (newItem (newMongoItem I)) = Updated I
     \<and> ETag (newItem (newMongoItem I)) =
         (if ETag I = []
          then ''p-'' @ (case ID I of VObjectID b \<Rightarrow> Hex b | _ \<Rightarrow> Sprint (ID I))
          else ETag I)
     \<and> (\<forall>k. k \<noteq> ''id'' \<longrightarrow> Payload (newItem (newMongoItem I)) k = Payload I k)
     \<and> (case m_Payload (newMongoItem I) of None \<Rightarrow> False | Some p \<Rightarrow> p ''id'' = None)
     \<and> Payload (newItem (newMongoItem I)) ''id'' = Some (ID I)
     \<and> (ETag I \<noteq> [] \<and> Payload I ''id'' = Some (ID I) \<longrightarrow> newItem (newMongoItem I) = I)
     \<and> (m_Payload d = None \<longrightarrow> Payload (newItem d) = [''id'' \<mapsto> m_ID d])
     \<and> (m_ETag d = [] \<longrightarrow>
           ETag (newItem d) = ''p-'' @ (case m_ID d of VObjectID b \<Rightarrow> Hex b | _ \<Rightarrow> Sprint (m_ID d))
           \<and> ETag (newItem d) \<noteq> [])"
proof -
  have eq: "ETag I \<noteq> [] \<Longrightarrow> Payload I ''id'' = Some (ID I) \<Longrightarrow> newItem (newMongoItem I) = I"
    by (cases I) (auto simp: newItem_def newMongoItem_def Let_def fun_eq_iff)
  show ?thesis
    using eq by (simp add: newItem_fields) (simp add: newMongoItem_def Let_def split: val.splits)
qed

theorem item_round_trip_witness:
  "newItem (newMongoItem (example_item 7 ''abc'')) = example_item 7 ''abc''
   \<and> ETag (newItem (newMongoItem (example_item 7 []))) = ''p-7''
   \<and> Payload (newItem \<lparr>m_ID = VObjectID [0x5f, 0x0a], m_ETag = [], m_Updated = 0, m_Payload = None\<rparr>)
       = [''id'' \<mapsto> VObjectID [0x5f, 0x0a]]
   \<and> ETag (newItem \<lparr>m_ID = VObjectID [0x5f, 0x0a], m_ETag = [], m_Updated = 0, m_Payload = None\<rparr>)
       = ''p-5f0a''"
  using item_round_trip [of "example_item 7 ''abc''"
          "\<lparr>m_ID = VObjectID [0x5f, 0x0a], m_ETag = [], m_Updated = 0, m_Payload = None\<rparr>"]
        item_round_trip [of "example_item 7 []" "\<lparr>m_ID = VNil, m_ETag = [], m_Updated = 0, m_Payload = None\<rparr>"]
  by (simp add: example_item_def Hex_def hexdigit_def decimal.simps)

section \<open>Evaluation of the adapter and of the reference collection\<close>

lemmas adapter_defs =
  Insert_def Update_def Delete_def Clear_def Count_def Find_def NewHandler_def Decode_def
  HasPrefix_def SetProjection_def IsDuplicateKeyError_def Let_def len_def

lemmas ref_defs =
  ref_collection_def ref_translator_def ref_InsertMany_def ref_UpdateByID_def ref_FindOne_def
  ref_DeleteOne_def ref_Find_def ref_DeleteMany_def ref_CountDocuments_def logged_def
  found_def page_def sort_docs_def key_le_def sort_by_def matches_def field_def project_def
  decode_def encode_def set_fields_def failing_collection_def

lemmas example_defs = twelve_docs_def untagged_docs_def example_doc_def by_rank_def example_item_def

section \<open>Find and Count\<close>

text \<open>\<^verbatim>\<open>Count\<close> returns \<open>-1\<close> with the error when the query translation or the handle
  fails, and otherwise exactly what the store's count returned.\<close>

lemma Count_results:
  "Count tr m ctx q st =
     (case getQuery tr q of
        Inl e \<Rightarrow> ((- 1, Some e), st)
      | Inr f \<Rightarrow> (case m ctx of Inl e \<Rightarrow> ((- 1, Some e), st) | Inr c \<Rightarrow> c_CountDocuments c ctx f st))"
  by (simp add: Count_def Let_def split: sum.splits prod.splits)

text \<open>On the reference collection \<^verbatim>\<open>Count\<close> is the number of matching documents, with no
  error: 0, and not \<open>-1\<close>, when nothing matches.\<close>

lemma Count_reference:
  "Count ref_translator (NewHandler ref_collection) ctx q st
     = ((len (filter (matches (Predicate q)) (docs st)), None),
        logged (CountDocumentsReq (Predicate q)) st)"
  by (simp add: Count_results ref_translator_def NewHandler_def ref_collection_def
        ref_CountDocuments_def Let_def logged_def)

text \<open>
  C10. Whenever \<^verbatim>\<open>Find\<close> returns a list, its \<open>Limit\<close> is the window's limit when the
  query has a window and \<open>-1\<close> when it has none (on the main read path and on the path
  of a zero limit alike).
\<close>

theorem Find_Limit:
  assumes "Find tr m ctx q st = (Returned (Some lst, err), st')"
  shows "Limit lst = (case Window q of None \<Rightarrow> - 1 | Some w \<Rightarrow> w_Limit w)"
  using assms
  by (auto simp: Find_def Let_def split: option.splits if_splits sum.splits prod.splits)

theorem Find_Limit_witness:
  "(\<exists>lst st'. Find ref_translator (NewHandler ref_collection) (Ctx None)
                (by_rank [] (Some \<lparr>w_Offset = 10, w_Limit = 5\<rparr>)) twelve_docs
              = (Returned (Some lst, None), st')
            \<and> Limit lst = 5)
   \<and> (\<exists>lst st'. Find ref_translator (NewHandler ref_collection) (Ctx None) (by_rank [] None) twelve_docs
              = (Returned (Some lst, None), st')
            \<and> Limit lst = - 1)"
proof -
  obtain lst st' where run:
    "Find ref_translator (NewHandler ref_collection) (Ctx None)
       (by_rank [] (Some \<lparr>w_Offset = 10, w_Limit = 5\<rparr>)) twelve_docs = (Returned (Some lst, None), st')"
    by (simp add: adapter_defs ref_defs example_defs)
  from Find_Limit [OF run] have 1: "Limit lst = 5"
    by (simp add: by_rank_def)
  obtain lst2 st2 where run2:
    "Find ref_translator (NewHandler ref_collection) (Ctx None) (by_rank [] None) twelve_docs
       = (Returned (Some lst2, None), st2)"
    by (simp add: adapter_defs ref_defs example_defs)
  from Find_Limit [OF run2] have 2: "Limit lst2 = - 1"
    by (simp add: by_rank_def)
  from run 1 have "\<exists>lst st'. Find ref_translator (NewHandler ref_collection) (Ctx None)
                (by_rank [] (Some \<lparr>w_Offset = 10, w_Limit = 5\<rparr>)) twelve_docs
              = (Returned (Some lst, None), st') \<and> Limit lst = 5"
    by (intro exI [of _ lst] exI [of _ st']) simp
  moreover from run2 2 have "\<exists>lst st'. Find ref_translator (NewHandler ref_collection) (Ctx None)
                (by_rank [] None) twelve_docs = (Returned (Some lst, None), st') \<and> Limit lst = - 1"
    by (intro exI [of _ lst2] exI [of _ st2]) simp
  ultimately show ?thesis by (rule conjI)
qed

text \<open>
  C5. Whenever \<^verbatim>\<open>Find\<close> returns a list: if the query has a window with a positive
  limit and the number of items equals the limit, the total is \<open>-1\<close>; if the query has no
  window, or has one and the number of items is below its limit, the total is the offset
  plus the number of items when the offset is positive and there is an item, \<open>-1\<close> when
  the offset is positive and there is none, and the number of items when there is no
  positive offset. Numbers are Go's \<^verbatim>\<open>int\<close>.
\<close>

theorem Find_Total:
  assumes "Find tr m ctx q st = (Returned (Some lst, err), st')"
  shows "(\<forall>w. Window q = Some w \<and> 0 <s w_Limit w \<and> len (Items lst) = w_Limit w \<longrightarrow> Total lst = - 1)
       \<and> (Window q = None \<or> (\<exists>w. Window q = Some w \<and> len (Items lst) <s w_Limit w) \<longrightarrow>
            Total lst =
              (case (case Window q of None \<Rightarrow> None | Some w \<Rightarrow> if 0 <s w_Offset w then Some (w_Offset w) else None) of
                 Some offset \<Rightarrow> if 0 <s len (Items lst) then offset + len (Items lst) else - 1
               | None \<Rightarrow> len (Items lst)))"
  using assms
  by (auto simp: Find_def Let_def len_def split: option.splits if_splits sum.splits prod.splits)

theorem Find_Total_witness:
  "(\<exists>lst st'. Find ref_translator (NewHandler ref_collection) (Ctx None)
                (by_rank [] (Some \<lparr>w_Offset = 10, w_Limit = 5\<rparr>)) twelve_docs
              = (Returned (Some lst, None), st')
            \<and> map ID (Items lst) = [VInt 9, VInt 11] \<and> Total lst = 12)
   \<and> (\<exists>lst st'. Find ref_translator (NewHandler ref_collection) (Ctx None)
                (by_rank [] (Some \<lparr>w_Offset = 0, w_Limit = 5\<rparr>)) twelve_docs
              = (Returned (Some lst, None), st')
            \<and> map ID (Items lst) = [VInt 2, VInt 4, VInt 6, VInt 8, VInt 10] \<and> Total lst = - 1)"
proof -
  obtain lst st' where run:
    "Find ref_translator (NewHandler ref_collection) (Ctx None)
       (by_rank [] (Some \<lparr>w_Offset = 10, w_Limit = 5\<rparr>)) twelve_docs = (Returned (Some lst, None), st')"
    and items: "map ID (Items lst) = [VInt 9, VInt 11]"
    by (simp add: adapter_defs ref_defs example_defs newItem_fields)
  from items have "length (map ID (Items lst)) = 2" by simp
  then have n: "len (Items lst) = 2" by (simp add: len_def)
  from Find_Total [OF run] n have total: "Total lst = 12"
    by (simp add: by_rank_def word_sless_alt)
  obtain lst2 st2 where run2:
    "Find ref_translator (NewHandler ref_collection) (Ctx None)
       (by_rank [] (Some \<lparr>w_Offset = 0, w_Limit = 5\<rparr>)) twelve_docs = (Returned (Some lst2, None), st2)"
    and items2: "map ID (Items lst2) = [VInt 2, VInt 4, VInt 6, VInt 8, VInt 10]"
    by (simp add: adapter_defs ref_defs example_defs newItem_fields)
  from items2 have "length (map ID (Items lst2)) = 5" by simp
  then have n2: "len (Items lst2) = 5" by (simp add: len_def)
  from Find_Total [OF run2] n2 have total2: "Total lst2 = - 1"
    by (simp add: by_rank_def word_sless_alt)
  from run items total have "\<exists>lst st'. Find ref_translator (NewHandler ref_collection) (Ctx None)
                (by_rank [] (Some \<lparr>w_Offset = 10, w_Limit = 5\<rparr>)) twelve_docs
              = (Returned (Some lst, None), st')
            \<and> map ID (Items lst) = [VInt 9, VInt 11] \<and> Total lst = 12"
    by (intro exI [of _ lst] exI [of _ st']) simp
  moreover from run2 items2 total2 have "\<exists>lst st'. Find ref_translator (NewHandler ref_collection) (Ctx None)
                (by_rank [] (Some \<lparr>w_Offset = 0, w_Limit = 5\<rparr>)) twelve_docs
              = (Returned (Some lst, None), st')
            \<and> map ID (Items lst) = [VInt 2, VInt 4, VInt 6, VInt 8, VInt 10] \<and> Total lst = - 1"
    by (intro exI [of _ lst2] exI [of _ st2]) simp
  ultimately show ?thesis by (rule conjI)
qed

text \<open>
  C8. When the query has a window whose limit is 0, \<^verbatim>\<open>Find\<close> does what \<^verbatim>\<open>Count\<close> does and
  nothing else: it returns no item, the limit 0 and the count as the total, or the error
  of \<^verbatim>\<open>Count\<close> with no list; and \<^verbatim>\<open>Count\<close> is the store's count for the translated filter
  of the query, in which the window has no part.
\<close>

theorem Find_limit_zero:
  assumes "Window q = Some w" and "w_Limit w = 0"
  shows "Find tr m ctx q st =
           (case Count tr m ctx q st of
              ((n, None), st') \<Rightarrow> (Returned (Some \<lparr>Total = n, Limit = 0, Items = []\<rparr>, None), st')
            | ((n, Some e), st') \<Rightarrow> (Returned (None, Some e), st'))
       \<and> (\<forall>f c. getQuery tr q = Inr f \<and> m ctx = Inr c \<longrightarrow>
             Count tr m ctx q st = c_CountDocuments c ctx f st)"
  using assms
  by (auto simp: Find_def Count_def Let_def split: option.splits if_splits sum.splits prod.splits)

theorem Find_limit_zero_witness:
  "Find ref_translator (NewHandler ref_collection) (Ctx None)
     (by_rank [(''kind'', V (VString ''a''))] (Some \<lparr>w_Offset = 0, w_Limit = 0\<rparr>)) twelve_docs
   = (Returned (Some \<lparr>Total = 10, Limit = 0, Items = []\<rparr>, None),
      twelve_docs\<lparr>log := [CountDocumentsReq [(''kind'', V (VString ''a''))]]\<rparr>)"
proof -
  have count:
    "Count ref_translator (NewHandler ref_collection) (Ctx None)
       (by_rank [(''kind'', V (VString ''a''))] (Some \<lparr>w_Offset = 0, w_Limit = 0\<rparr>)) twelve_docs
     = ((10, None), twelve_docs\<lparr>log := [CountDocumentsReq [(''kind'', V (VString ''a''))]]\<rparr>)"
    by (simp add: adapter_defs ref_defs example_defs)
  from Find_limit_zero [of "by_rank [(''kind'', V (VString ''a''))] (Some \<lparr>w_Offset = 0, w_Limit = 0\<rparr>)"
         "\<lparr>w_Offset = 0, w_Limit = 0\<rparr>" ref_translator "NewHandler ref_collection" "Ctx None" twelve_docs]
  show ?thesis
    by (simp add: count) (simp add: by_rank_def)
qed

text \<open>
  C9 (where the code departs from it). A count that fails in the store: \<^verbatim>\<open>Count\<close> hands
  back the store's count, here 0, with the error, and not \<open>-1\<close>. A query translation
  that fails and a handle that does not resolve both give \<open>-1\<close> with the error.
\<close>

theorem Count_store_failure_keeps_store_count:
  "fst (Count ref_translator (NewHandler (failing_collection (StoreError ''connection reset'')))
          (Ctx None) (by_rank [(''kind'', V (VString ''a''))] None) twelve_docs)
     = (0, Some (StoreError ''connection reset''))
   \<and> fst (Count (ref_translator\<lparr>getQuery := (\<lambda>q. Inl (QueryError ''unknown field''))\<rparr>)
          (NewHandler ref_collection)
          (Ctx None) (by_rank [(''kind'', V (VString ''a''))] None) twelve_docs)
     = (- 1, Some (QueryError ''unknown field''))
   \<and> fst (Count ref_translator (\<lambda>ctx. Inl (StoreError ''no collection''))
          (Ctx None) (by_rank [(''kind'', V (VString ''a''))] None) twelve_docs)
     = (- 1, Some (StoreError ''no collection''))"
  by (simp add: adapter_defs ref_defs example_defs)

section \<open>Clear\<close>

lemma Clear_no_window:
  assumes "getQuery tr q = Inr qry" and "m ctx = Inr c" and "Window q = None"
    and "c_DeleteMany c ctx qry st = ((info, err), st')"
  shows "Clear tr m ctx q st =
           ((case info of None \<Rightarrow> 0 | Some n \<Rightarrow> n, if err = None then Err ctx else err), st')"
  using assms by (simp add: Clear_def Let_def split: option.splits)

lemma Clear_windowed:
  assumes "getQuery tr q = Inr qry" and "m ctx = Inr c" and "Window q \<noteq> None"
    and "c_Find c ctx qry (SetProjection (applyWindow tr (getSort tr q) (Window q)) [(''_id'', V (VInt 1))]) st
           = ((request, None), st1)"
    and "selectIDs tr ctx request = Inr ids"
    and "c_DeleteMany c ctx [(''_id'', M [(''$in'', A (map V ids))])] st1 = ((info, err), st')"
  shows "Clear tr m ctx q st =
           ((case info of None \<Rightarrow> 0 | Some n \<Rightarrow> n, if err = None then Err ctx else err), st')"
  using assms by (simp add: Clear_def Let_def split: option.splits)

lemma Clear_cancelled:
  assumes "Err ctx = Some e"
  shows "snd (fst (Clear tr m ctx q st)) \<noteq> None"
  using assms by (auto simp add: Clear_def Let_def split: option.splits sum.splits prod.splits)

text \<open>
  C7. Once \<^verbatim>\<open>Clear\<close> reaches its bulk delete (on the translated filter when the query has
  no window, on the identifiers of the pre-query when it has one) and the store reports a
  deletion count, \<^verbatim>\<open>Clear\<close> returns that count together with the store's error, or with
  the context's error when the store reported none: a failure after a partial delete and
  a cancellation both come with the count.
\<close>

theorem Clear_partial_failure:
  assumes "getQuery tr q = Inr qry" and "m ctx = Inr c"
    and "(Window q = None \<and> del = qry \<and> st1 = st)
       \<or> (Window q \<noteq> None
          \<and> c_Find c ctx qry (SetProjection (applyWindow tr (getSort tr q) (Window q)) [(''_id'', V (VInt 1))]) st
              = ((request, None), st1)
          \<and> selectIDs tr ctx request = Inr ids
          \<and> del = [(''_id'', M [(''$in'', A (map V ids))])])"
    and "c_DeleteMany c ctx del st1 = ((Some n, err), st')"
  shows "Clear tr m ctx q st = ((n, if err = None then Err ctx else err), st')"
  using assms Clear_no_window [of tr q qry m ctx c st "Some n" err st']
    Clear_windowed [of tr q qry m ctx c st request st1 ids "Some n" err st']
  by auto

theorem Clear_partial_failure_witness:
  "fst (Clear ref_translator (NewHandler (failing_collection (StoreError ''connection reset''))) (Ctx None)
          (by_rank [(''kind'', V (VString ''b''))] None) twelve_docs)
     = (1, Some (StoreError ''connection reset''))
   \<and> fst (Clear ref_translator (NewHandler ref_collection) (Ctx (Some Canceled))
          (by_rank [(''kind'', V (VString ''b''))] None) twelve_docs)
     = (2, Some Canceled)"
proof -
  have 1: "c_DeleteMany (failing_collection (StoreError ''connection reset'')) (Ctx None)
             [(''kind'', V (VString ''b''))] twelve_docs
           = ((Some 1, Some (StoreError ''connection reset'')),
              snd (c_DeleteMany (failing_collection (StoreError ''connection reset'')) (Ctx None)
                     [(''kind'', V (VString ''b''))] twelve_docs))"
    by (simp add: ref_defs example_defs Let_def len_def)
  have 2: "c_DeleteMany ref_collection (Ctx (Some Canceled)) [(''kind'', V (VString ''b''))] twelve_docs
           = ((Some 2, None),
              snd (c_DeleteMany ref_collection (Ctx (Some Canceled)) [(''kind'', V (VString ''b''))] twelve_docs))"
    by (simp add: ref_defs example_defs Let_def len_def)
  from Clear_partial_failure [of ref_translator "by_rank [(''kind'', V (VString ''b''))] None"
         "[(''kind'', V (VString ''b''))]" "NewHandler (failing_collection (StoreError ''connection reset''))"
         "Ctx None" "failing_collection (StoreError ''connection reset'')"
         "[(''kind'', V (VString ''b''))]" twelve_docs twelve_docs None "[]", OF _ _ _ 1]
       Clear_partial_failure [of ref_translator "by_rank [(''kind'', V (VString ''b''))] None"
         "[(''kind'', V (VString ''b''))]" "NewHandler ref_collection"
         "Ctx (Some Canceled)" ref_collection
         "[(''kind'', V (VString ''b''))]" twelve_docs twelve_docs None "[]", OF _ _ _ 2]
  show ?thesis
    by (simp add: ref_translator_def by_rank_def NewHandler_def)
qed

section \<open>Update and Delete\<close>

text \<open>The outcome of \<^verbatim>\<open>Update\<close> does not depend on the version tag of the original: the
  selector that holds it never reaches the store.\<close>

lemma Update_ignores_ETag:
  "Update m ctx item (original\<lparr>ETag := t\<rparr>) st = Update m ctx item original st"
  by (auto simp: Update_def Let_def split: sum.splits prod.splits)

text \<open>\<^verbatim>\<open>Delete\<close> on the reference collection: one request, the delete with the selector,
  and no error whether or not a document matched. The driver reports a delete that
  matched nothing as a success, and line 153 tests for \<open>ErrNoDocuments\<close> only: under a
  stale tag \<^verbatim>\<open>Delete\<close> returns no error and deletes nothing.\<close>

lemma Delete_reference:
  fixes st :: store
  shows "Delete (NewHandler ref_collection) ctx item st =
           (None,
            \<lparr>docs = remove_first
                      (matches [(''_id'', V (ID item)),
                                (''_etag'', if HasPrefix (ETag item) ''p-''
                                            then M [(''$exists'', V (VBool False))]
                                            else V (VString (ETag item)))]) (docs st),
             log = log st @ [DeleteOneReq [(''_id'', V (ID item)),
                                           (''_etag'', if HasPrefix (ETag item) ''p-''
                                                       then M [(''$exists'', V (VBool False))]
                                                       else V (VString (ETag item)))]]\<rparr>)"
proof (cases "HasPrefix (ETag item) ''p-''")
  case True
  then show ?thesis
    by (simp add: Delete_def NewHandler_def ref_collection_def ref_DeleteOne_def Let_def logged_def)
next
  case False
  then show ?thesis
    by (simp add: Delete_def NewHandler_def ref_collection_def ref_DeleteOne_def Let_def logged_def)
qed

lemma Delete_stale_tag_reference:
  "Delete (NewHandler ref_collection) (Ctx None) (example_item 3 ''v0'') twelve_docs
     = (None, twelve_docs\<lparr>log := [DeleteOneReq [(''_id'', V (VInt 3)), (''_etag'', V (VString ''v0''))]]\<rparr>)"
  by (simp add: Delete_reference HasPrefix_def matches_def field_def example_defs)

text \<open>
  C1 (where the code departs from it). The store holds document 3 with the version tag
  \<open>v1\<close>. \<^verbatim>\<open>Update\<close> is called with an original whose tag is the stale \<open>v0\<close>, under a
  live context. It returns no error, where a conflict is due, and document 3 is
  overwritten with the tag and the payload of the new item.
\<close>

theorem Update_stale_tag_overwrites:
  "field (docs twelve_docs ! 2) ''_id'' = Some (VInt 3)
   \<and> field (docs twelve_docs ! 2) ''_etag'' = Some (VString ''v1'')
   \<and> fst (Update (NewHandler ref_collection) (Ctx None)
             (example_item 3 ''v2'') (example_item 3 ''v0'') twelve_docs) = None
   \<and> log (snd (Update (NewHandler ref_collection) (Ctx None)
             (example_item 3 ''v2'') (example_item 3 ''v0'') twelve_docs))
       = [UpdateByIDReq (VInt 3) [(''$set'', newMongoItem (example_item 3 ''v2''))]]
   \<and> field (docs (snd (Update (NewHandler ref_collection) (Ctx None)
             (example_item 3 ''v2'') (example_item 3 ''v0'') twelve_docs)) ! 2) ''_etag''
       = Some (VString ''v2'')
   \<and> field (docs (snd (Update (NewHandler ref_collection) (Ctx None)
             (example_item 3 ''v2'') (example_item 3 ''v0'') twelve_docs)) ! 2) ''kind''
       = Some (VString ''c'')"
  by (simp add: adapter_defs ref_defs example_defs newMongoItem_def)

text \<open>
  C2, as the code has it. \<^verbatim>\<open>Delete\<close> issues its write with a filter on the identifier
  and on the version: the version field absent when the caller's tag starts with
  \<^verbatim>\<open>"p-"\<close>, equal to the tag otherwise. The version check is in the filter of the write
  and is not left to a read: whatever that write reports, other than \<open>ErrNoDocuments\<close>,
  is what \<^verbatim>\<open>Delete\<close> returns, with no further call to the store.
\<close>

theorem Delete_write_filter:
  assumes "m ctx = Inr c"
    and "c_DeleteOne c ctx
           [(''_id'', V (ID item)),
            (''_etag'', if HasPrefix (ETag item) ''p-''
                        then M [(''$exists'', V (VBool False))]
                        else V (VString (ETag item)))] st = (err, st1)"
    and "err \<noteq> Some ErrNoDocuments"
  shows "Delete m ctx item st = (err, st1)"
proof -
  have sel: "(if HasPrefix (ETag item) ''p-''
              then AList.update ''_etag'' (M [(''$exists'', V (VBool False))]) [(''_id'', V (ID item))]
              else AList.update ''_etag'' (V (VString (ETag item))) [(''_id'', V (ID item))])
             = [(''_id'', V (ID item)),
                (''_etag'', if HasPrefix (ETag item) ''p-''
                            then M [(''$exists'', V (VBool False))]
                            else V (VString (ETag item)))]"
    by simp
  show ?thesis
    unfolding Delete_def Let_def sel using assms by simp
qed

theorem Delete_write_filter_witness:
  "Delete (NewHandler ref_collection) (Ctx None) (example_item 3 ''v1'') twelve_docs
     = (None,
        \<lparr>docs = [example_doc 1 7 ''a'', example_doc 2 1 ''a'',
                 example_doc 4 2 ''b'', example_doc 5 9 ''a'', example_doc 6 3 ''a'',
                 example_doc 7 10 ''a'', example_doc 8 4 ''a'', example_doc 9 11 ''b'',
                 example_doc 10 5 ''a'', example_doc 11 12 ''a'', example_doc 12 6 ''a''],
         log = [DeleteOneReq [(''_id'', V (VInt 3)), (''_etag'', V (VString ''v1''))]]\<rparr>)
   \<and> Delete (NewHandler ref_collection) (Ctx None) (example_item 1 ''p-1'') untagged_docs
     = (None,
        \<lparr>docs = [],
         log = [DeleteOneReq [(''_id'', V (VInt 1)), (''_etag'', M [(''$exists'', V (VBool False))])]]\<rparr>)"
proof -
  have handle: "NewHandler ref_collection (Ctx None) = Inr ref_collection"
    by (simp add: NewHandler_def)
  have wr1: "c_DeleteOne ref_collection (Ctx None)
               [(''_id'', V (ID (example_item 3 ''v1''))),
                (''_etag'', if HasPrefix (ETag (example_item 3 ''v1'')) ''p-''
                            then M [(''$exists'', V (VBool False))]
                            else V (VString (ETag (example_item 3 ''v1''))))] twelve_docs
             = (None,
                \<lparr>docs = [example_doc 1 7 ''a'', example_doc 2 1 ''a'',
                         example_doc 4 2 ''b'', example_doc 5 9 ''a'', example_doc 6 3 ''a'',
                         example_doc 7 10 ''a'', example_doc 8 4 ''a'', example_doc 9 11 ''b'',
                         example_doc 10 5 ''a'', example_doc 11 12 ''a'', example_doc 12 6 ''a''],
                 log = [DeleteOneReq [(''_id'', V (VInt 3)), (''_etag'', V (VString ''v1''))]]\<rparr>)"
    by (simp add: HasPrefix_def ref_collection_def ref_DeleteOne_def matches_def field_def example_defs
          logged_def Let_def)
  have wr2: "c_DeleteOne ref_collection (Ctx None)
               [(''_id'', V (ID (example_item 1 ''p-1''))),
                (''_etag'', if HasPrefix (ETag (example_item 1 ''p-1'')) ''p-''
                            then M [(''$exists'', V (VBool False))]
                            else V (VString (ETag (example_item 1 ''p-1''))))] untagged_docs
             = (None,
                \<lparr>docs = [],
                 log = [DeleteOneReq [(''_id'', V (VInt 1)), (''_etag'', M [(''$exists'', V (VBool False))])]]\<rparr>)"
    by (simp add: HasPrefix_def ref_collection_def ref_DeleteOne_def matches_def field_def example_defs
          logged_def Let_def)
  have ok: "(None :: error option) \<noteq> Some ErrNoDocuments"
    by simp
  from Delete_write_filter [of "NewHandler ref_collection" "Ctx None" ref_collection
         "example_item 3 ''v1''" twelve_docs, OF handle wr1 ok]
       Delete_write_filter [of "NewHandler ref_collection" "Ctx None" ref_collection
         "example_item 1 ''p-1''" untagged_docs, OF handle wr2 ok]
  show ?thesis by (rule conjI)
qed

text \<open>The write of \<^verbatim>\<open>Delete\<close> on the reference collection, for a caller whose tag is
  \<open>v0\<close>: the filter carries the version condition, and is not the identifier alone.\<close>

theorem Delete_filter_carries_version:
  "hd (log (snd (Delete (NewHandler ref_collection) (Ctx None) (example_item 3 ''v0'') twelve_docs)))
     = DeleteOneReq [(''_id'', V (VInt 3)), (''_etag'', V (VString ''v0''))]
   \<and> hd (log (snd (Delete (NewHandler ref_collection) (Ctx None) (example_item 3 ''v0'') twelve_docs)))
     \<noteq> DeleteOneReq [(''_id'', V (VInt 3))]"
  by (simp add: adapter_defs ref_defs example_defs)

section \<open>Cancellation\<close>

text \<open>
  C3, as the code has it. Under a context that is already cancelled: \<^verbatim>\<open>Insert\<close>, once the
  handle is resolved, returns the context's error whatever the store returned;
  \<^verbatim>\<open>Clear\<close> always returns an error, which is the context's when no step before it
  failed and the bulk delete reported none. \<^verbatim>\<open>Delete\<close> and \<^verbatim>\<open>Update\<close> return the outcome
  of their write as it is unless it is \<open>ErrNoDocuments\<close>, and \<^verbatim>\<open>Count\<close> returns the outcome
  of the store's count, so a call that the store answers with success is reported as
  success. \<^verbatim>\<open>Find\<close> on its main path, when the store hands back a cursor with no error
  and the cursor closes with no error, returns its list with no error.
\<close>

theorem cancellation_where_checked:
  assumes "Err ctx = Some e"
  shows "(\<forall>c. m ctx = Inr c \<longrightarrow> fst (Insert m ctx items st) = Some e)
       \<and> snd (fst (Clear tr m ctx q st)) \<noteq> None
       \<and> (\<forall>qry c. getQuery tr q = Inr qry \<and> m ctx = Inr c \<and> Window q = None
                   \<and> snd (fst (c_DeleteMany c ctx qry st)) = None \<longrightarrow>
             snd (fst (Clear tr m ctx q st)) = Some e)
       \<and> (\<forall>qry c request st1 ids. getQuery tr q = Inr qry \<and> m ctx = Inr c \<and> Window q \<noteq> None
                   \<and> c_Find c ctx qry (SetProjection (applyWindow tr (getSort tr q) (Window q))
                                          [(''_id'', V (VInt 1))]) st = ((request, None), st1)
                   \<and> selectIDs tr ctx request = Inr ids
                   \<and> snd (fst (c_DeleteMany c ctx [(''_id'', M [(''$in'', A (map V ids))])] st1)) = None \<longrightarrow>
             snd (fst (Clear tr m ctx q st)) = Some e)
       \<and> (\<forall>c. m ctx = Inr c
                   \<and> fst (c_DeleteOne c ctx [(''_id'', V (ID item)),
                                              (''_etag'', if HasPrefix (ETag item) ''p-''
                                                          then M [(''$exists'', V (VBool False))]
                                                          else V (VString (ETag item)))] st)
                       \<noteq> Some ErrNoDocuments \<longrightarrow>
             Delete m ctx item st
               = c_DeleteOne c ctx [(''_id'', V (ID item)),
                                    (''_etag'', if HasPrefix (ETag item) ''p-''
                                                then M [(''$exists'', V (VBool False))]
                                                else V (VString (ETag item)))] st)
       \<and> (\<forall>c. m ctx = Inr c
                   \<and> fst (c_UpdateByID c ctx (ID original) [(''$set'', newMongoItem item)] st)
                       \<noteq> Some ErrNoDocuments \<longrightarrow>
             Update m ctx item original st
               = c_UpdateByID c ctx (ID original) [(''$set'', newMongoItem item)] st)
       \<and> (\<forall>f c. getQuery tr q = Inr f \<and> m ctx = Inr c \<longrightarrow>
             Count tr m ctx q st = c_CountDocuments c ctx f st)
       \<and> (\<forall>f c cur st'. getQuery tr q = Inr f \<and> m ctx = Inr c
                   \<and> (case Window q of None \<Rightarrow> True | Some w \<Rightarrow> w_Limit w \<noteq> 0)
                   \<and> c_Find c ctx f (applyWindow tr (getSort tr q) (Window q)) st = ((Some cur, None), st')
                   \<and> cur_Close cur = None \<longrightarrow>
             (\<exists>lst. Find tr m ctx q st = (Returned (Some lst, None), st')))"
proof -
  have ins: "\<forall>c. m ctx = Inr c \<longrightarrow> fst (Insert m ctx items st) = Some e"
    using assms by (simp add: Insert_def Let_def split: prod.splits)
  have clr: "snd (fst (Clear tr m ctx q st)) \<noteq> None"
    using assms by (rule Clear_cancelled)
  have clr1: "\<forall>qry c. getQuery tr q = Inr qry \<and> m ctx = Inr c \<and> Window q = None
                   \<and> snd (fst (c_DeleteMany c ctx qry st)) = None \<longrightarrow>
             snd (fst (Clear tr m ctx q st)) = Some e"
    using assms by (auto simp: Clear_def Let_def split: option.splits prod.splits)
  have clr2: "\<forall>qry c request st1 ids. getQuery tr q = Inr qry \<and> m ctx = Inr c \<and> Window q \<noteq> None
                   \<and> c_Find c ctx qry (SetProjection (applyWindow tr (getSort tr q) (Window q))
                                          [(''_id'', V (VInt 1))]) st = ((request, None), st1)
                   \<and> selectIDs tr ctx request = Inr ids
                   \<and> snd (fst (c_DeleteMany c ctx [(''_id'', M [(''$in'', A (map V ids))])] st1)) = None \<longrightarrow>
             snd (fst (Clear tr m ctx q st)) = Some e"
    using assms by (auto simp: Clear_def Let_def split: option.splits prod.splits)
  have del: "\<forall>c. m ctx = Inr c
                   \<and> fst (c_DeleteOne c ctx [(''_id'', V (ID item)),
                                              (''_etag'', if HasPrefix (ETag item) ''p-''
                                                          then M [(''$exists'', V (VBool False))]
                                                          else V (VString (ETag item)))] st)
                       \<noteq> Some ErrNoDocuments \<longrightarrow>
             Delete m ctx item st
               = c_DeleteOne c ctx [(''_id'', V (ID item)),
                                    (''_etag'', if HasPrefix (ETag item) ''p-''
                                                then M [(''$exists'', V (VBool False))]
                                                else V (VString (ETag item)))] st"
    by (auto simp: Delete_def Let_def split: prod.splits)
  have upd: "\<forall>c. m ctx = Inr c
                   \<and> fst (c_UpdateByID c ctx (ID original) [(''$set'', newMongoItem item)] st)
                       \<noteq> Some ErrNoDocuments \<longrightarrow>
             Update m ctx item original st
               = c_UpdateByID c ctx (ID original) [(''$set'', newMongoItem item)] st"
    by (auto simp: Update_def Let_def split: prod.splits)
  have cnt: "\<forall>f c. getQuery tr q = Inr f \<and> m ctx = Inr c \<longrightarrow>
             Count tr m ctx q st = c_CountDocuments c ctx f st"
    by (simp add: Count_results)
  have fnd: "\<forall>f c cur st'. getQuery tr q = Inr f \<and> m ctx = Inr c
                   \<and> (case Window q of None \<Rightarrow> True | Some w \<Rightarrow> w_Limit w \<noteq> 0)
                   \<and> c_Find c ctx f (applyWindow tr (getSort tr q) (Window q)) st = ((Some cur, None), st')
                   \<and> cur_Close cur = None \<longrightarrow>
             (\<exists>lst. Find tr m ctx q st = (Returned (Some lst, None), st'))"
    by (auto simp: Find_def Let_def split: option.splits)
  from ins clr clr1 clr2 del upd cnt fnd show ?thesis
    by (intro conjI)
qed

theorem cancellation_where_checked_witness:
  "fst (Insert (NewHandler ref_collection) (Ctx (Some Canceled)) [example_item 20 ''v1''] twelve_docs)
     = Some Canceled
   \<and> snd (fst (Clear ref_translator (NewHandler ref_collection) (Ctx (Some Canceled))
            (by_rank [(''kind'', V (VString ''b''))] None) twelve_docs)) = Some Canceled
   \<and> fst (Delete (NewHandler ref_collection) (Ctx (Some Canceled)) (example_item 3 ''v1'') twelve_docs)
     = None
   \<and> fst (Count ref_translator (NewHandler ref_collection) (Ctx (Some Canceled))
            (by_rank [(''kind'', V (VString ''b''))] None) twelve_docs) = (2, None)"
proof -
  have ctx: "Err (Ctx (Some Canceled)) = Some Canceled"
    by simp
  note checked = cancellation_where_checked [OF ctx, of "NewHandler ref_collection"
         "[example_item 20 ''v1'']" twelve_docs ref_translator
         "by_rank [(''kind'', V (VString ''b''))] None" "example_item 3 ''v1''" "example_item 3 ''v1''"]
  have handle: "NewHandler ref_collection (Ctx (Some Canceled)) = Inr ref_collection"
    by (simp add: NewHandler_def)
  have 1: "fst (Insert (NewHandler ref_collection) (Ctx (Some Canceled)) [example_item 20 ''v1''] twelve_docs)
             = Some Canceled"
    using checked [THEN conjunct1] handle by simp
  have del: "snd (fst (c_DeleteMany ref_collection (Ctx (Some Canceled)) [(''kind'', V (VString ''b''))]
                        twelve_docs)) = None"
    by (simp add: ref_collection_def ref_DeleteMany_def Let_def)
  have 2: "snd (fst (Clear ref_translator (NewHandler ref_collection) (Ctx (Some Canceled))
            (by_rank [(''kind'', V (VString ''b''))] None) twelve_docs)) = Some Canceled"
    using checked [THEN conjunct2, THEN conjunct2, THEN conjunct1, rule_format,
                   of "[(''kind'', V (VString ''b''))]" ref_collection] handle del
    by (simp add: ref_translator_def by_rank_def)
  have wr: "fst (c_DeleteOne ref_collection (Ctx (Some Canceled))
                 [(''_id'', V (ID (example_item 3 ''v1''))),
                  (''_etag'', if HasPrefix (ETag (example_item 3 ''v1'')) ''p-''
                              then M [(''$exists'', V (VBool False))]
                              else V (VString (ETag (example_item 3 ''v1''))))] twelve_docs) = None"
    by (simp add: ref_collection_def ref_DeleteOne_def Let_def)
  have 3: "fst (Delete (NewHandler ref_collection) (Ctx (Some Canceled)) (example_item 3 ''v1'') twelve_docs)
             = None"
    using checked [THEN conjunct2, THEN conjunct2, THEN conjunct2, THEN conjunct2, THEN conjunct1,
                   rule_format, of ref_collection] handle wr
    by simp
  have cnt: "fst (c_CountDocuments ref_collection (Ctx (Some Canceled)) [(''kind'', V (VString ''b''))]
                    twelve_docs) = (2, None)"
    by (simp add: ref_collection_def ref_CountDocuments_def matches_def field_def example_defs Let_def
          len_def logged_def)
  have 4: "fst (Count ref_translator (NewHandler ref_collection) (Ctx (Some Canceled))
            (by_rank [(''kind'', V (VString ''b''))] None) twelve_docs) = (2, None)"
    using checked [THEN conjunct2, THEN conjunct2, THEN conjunct2, THEN conjunct2, THEN conjunct2,
                   THEN conjunct2, THEN conjunct1, rule_format,
                   of "[(''kind'', V (VString ''b''))]" ref_collection] handle cnt
    by (simp add: ref_translator_def by_rank_def)
  from 1 2 3 4 show ?thesis by (intro conjI)
qed

text \<open>\<^verbatim>\<open>Count\<close> and \<^verbatim>\<open>Update\<close> under a cancelled context, on a store that answers all
  the same: both return without an error.\<close>

theorem Count_cancelled_reports_success:
  "Err (Ctx (Some Canceled)) = Some Canceled
   \<and> fst (Count ref_translator (NewHandler ref_collection) (Ctx (Some Canceled))
            (by_rank [(''kind'', V (VString ''a''))] None) twelve_docs) = (10, None)
   \<and> fst (Update (NewHandler ref_collection) (Ctx (Some Canceled))
            (example_item 3 ''v2'') (example_item 3 ''v1'') twelve_docs) = None"
  by (simp add: adapter_defs ref_defs example_defs)

section \<open>Clear with a window, on the reference collection\<close>

lemma set_insert_by: "set (insert_by le x xs) = insert x (set xs)"
  by (induction xs) auto

lemma distinct_insert_by: "distinct (insert_by le x xs) = (x \<notin> set xs \<and> distinct xs)"
  by (induction xs) (auto simp: set_insert_by)

lemma set_sort_by: "set (sort_by le xs) = set xs"
  by (induction xs) (auto simp: sort_by_def set_insert_by)

lemma distinct_sort_by: "distinct (sort_by le xs) = distinct xs"
  by (induction xs) (auto simp: sort_by_def distinct_insert_by set_sort_by [unfolded sort_by_def])

lemma set_sort_docs: "set (sort_docs keys ds) = set ds"
  by (induction keys) (auto simp: sort_docs_def set_sort_by)

lemma distinct_sort_docs: "distinct (sort_docs keys ds) = distinct ds"
  by (induction keys) (auto simp: sort_docs_def distinct_sort_by)

text \<open>The filter the windowed \<^verbatim>\<open>Clear\<close> builds matches a document exactly when its
  identifier is one of those listed.\<close>

lemma matches_id_in: "matches [(''_id'', M [(''$in'', A (map V ids))])] d = (d_id d \<in> set ids)"
  by (auto simp: matches_def field_def)

lemma window_docs_subset:
  "set (take n (drop k (sort_docs keys (filter P ds)))) \<subseteq> set ds"
proof -
  have "set (take n (drop k (sort_docs keys (filter P ds)))) \<subseteq> set (sort_docs keys (filter P ds))"
    by (meson set_take_subset set_drop_subset subset_trans)
  then show ?thesis by (auto simp: set_sort_docs)
qed

lemma window_docs_distinct:
  "distinct ds \<Longrightarrow> distinct (take n (drop k (sort_docs keys (filter P ds))))"
  by (simp add: distinct_sort_docs)

lemma id_in_window:
  assumes ids: "distinct (map d_id ds)" and sub: "set win \<subseteq> set ds" and d: "d \<in> set ds"
  shows "(d_id d \<in> set (map d_id win)) = (d \<in> set win)"
proof
  assume "d_id d \<in> set (map d_id win)"
  then obtain d' where d': "d' \<in> set win" and eq: "d_id d' = d_id d"
    by auto
  from ids have "inj_on d_id (set ds)"
    by (simp add: distinct_map)
  with sub d d' eq have "d' = d"
    by (auto dest: inj_onD)
  with d' show "d \<in> set win" by simp
next
  assume "d \<in> set win"
  then show "d_id d \<in> set (map d_id win)" by simp
qed

lemma filter_window:
  assumes ids: "distinct (map d_id ds)" and sub: "set win \<subseteq> set ds"
  shows "filter (\<lambda>d. d_id d \<in> set (map d_id win)) ds = filter (\<lambda>d. d \<in> set win) ds"
    and "filter (\<lambda>d. d_id d \<notin> set (map d_id win)) ds = filter (\<lambda>d. d \<notin> set win) ds"
  using id_in_window [OF ids sub] by (auto intro: filter_cong)

lemma length_filter_window:
  assumes ds: "distinct ds" and win: "distinct win" and sub: "set win \<subseteq> set ds"
  shows "length (filter (\<lambda>d. d \<in> set win) ds) = length win"
proof -
  from ds have "length (filter (\<lambda>d. d \<in> set win) ds) = card ({d. d \<in> set win} \<inter> set ds)"
    by (rule distinct_length_filter)
  also from sub have "{d. d \<in> set win} \<inter> set ds = set win"
    by auto
  also from win have "card (set win) = length win"
    by (rule distinct_card)
  finally show ?thesis .
qed

lemma Clear_window_reference:
  fixes q :: "(bsonM, bsonM) query" and st :: store
  assumes w: "Window q = Some w" and ids: "distinct (map d_id (docs st))" and limit: "0 <s w_Limit w"
  defines "win \<equiv> take (nat (sint (w_Limit w)))
                   (drop (nat (sint (w_Offset w)))
                      (sort_docs (Sort q) (filter (matches (Predicate q)) (docs st))))"
  shows "Clear ref_translator (NewHandler ref_collection) ctx q st =
           ((len win, Err ctx),
            \<lparr>docs = filter (\<lambda>d. d \<notin> set win) (docs st),
             log = log st @
                   [FindReq (Predicate q)
                      \<lparr>opt_Sort = Sort q, opt_Skip = Some (w_Offset w), opt_Limit = Some (w_Limit w),
                       opt_Projection = Some [(''_id'', V (VInt 1))]\<rparr>,
                    DeleteManyReq [(''_id'', M [(''$in'', A (map V (map d_id win)))])]]\<rparr>)"
proof -
  let ?opts = "\<lparr>opt_Sort = Sort q, opt_Skip = Some (w_Offset w), opt_Limit = Some (w_Limit w),
                opt_Projection = Some [(''_id'', V (VInt 1))]\<rparr>"
  from limit have pos: "0 < sint (w_Limit w)" and nz: "w_Limit w \<noteq> 0"
    by (auto simp: word_sless_alt)
  have found: "found (Predicate q) ?opts (docs st) = win"
    using pos nz by (simp add: found_def page_def win_def)
  have sub: "set win \<subseteq> set (docs st)"
    unfolding win_def by (rule window_docs_subset)
  from ids have dist: "distinct (docs st)"
    by (simp add: distinct_map)
  then have dwin: "distinct win"
    unfolding win_def by (rule window_docs_distinct)
  have sel: "map m_ID (map decode (map (project (Some [(''_id'', V (VInt 1))])) win)) = map d_id win"
    by (simp add: decode_def project_def comp_def)
  have hit: "filter (matches [(''_id'', M [(''$in'', A (map V (map d_id win)))])]) (docs st)
               = filter (\<lambda>d. d \<in> set win) (docs st)"
    unfolding matches_id_in by (rule filter_window(1) [OF ids sub])
  have miss: "filter (\<lambda>d. \<not> matches [(''_id'', M [(''$in'', A (map V (map d_id win)))])] d) (docs st)
               = filter (\<lambda>d. d \<notin> set win) (docs st)"
    unfolding matches_id_in by (rule filter_window(2) [OF ids sub])
  have n: "length (filter (\<lambda>d. d \<in> set win) (docs st)) = length win"
    using dist dwin sub by (rule length_filter_window)
  have read: "c_Find ref_collection ctx (Predicate q) ?opts st
               = ((Some \<lparr>cur_All = map decode (map (project (Some [(''_id'', V (VInt 1))])) win),
                         cur_Close = None\<rparr>, None),
                  logged (FindReq (Predicate q) ?opts) st)"
    by (simp add: ref_collection_def ref_Find_def Let_def logged_def found)
  have del: "c_DeleteMany ref_collection ctx [(''_id'', M [(''$in'', A (map V (map d_id win)))])]
               (logged (FindReq (Predicate q) ?opts) st)
             = ((Some (len win), None),
                \<lparr>docs = filter (\<lambda>d. d \<notin> set win) (docs st),
                 log = log st @ [FindReq (Predicate q) ?opts,
                                 DeleteManyReq [(''_id'', M [(''$in'', A (map V (map d_id win)))])]]\<rparr>)"
    by (simp add: ref_collection_def ref_DeleteMany_def Let_def logged_def hit miss n len_def del: map_map)
  show ?thesis
    using Clear_windowed [of ref_translator q "Predicate q" "NewHandler ref_collection" ctx
            ref_collection st _ _ "map d_id win", OF _ _ _ _ _ del] w read sel
    by (simp add: ref_translator_def NewHandler_def SetProjection_def del: map_map)
qed

text \<open>
  C6. When the query has a window, \<^verbatim>\<open>Clear\<close> first reads with the translated filter and
  with the options of the sort and the window, projected on the identifier; it collects
  the identifiers of that read; and its bulk delete is filtered by the identifier being
  one of them. On the reference collection, with identifiers that are unique and a
  positive limit, the documents removed are exactly those the window selects among the
  matching documents in the sort order (the limit's number of them after the offset),
  their number is the count returned, and the two requests are the only ones issued.
\<close>

theorem Clear_window:
  fixes q' :: "(bsonM, bsonM) query" and st' :: store
  shows "(Window q \<noteq> None \<and> getQuery tr q = Inr qry \<and> m ctx = Inr c
          \<and> c_Find c ctx qry (SetProjection (applyWindow tr (getSort tr q) (Window q))
                                 [(''_id'', V (VInt 1))]) st = ((request, None), st1)
          \<and> selectIDs tr ctx request = Inr ids \<longrightarrow>
          Clear tr m ctx q st =
            (case c_DeleteMany c ctx [(''_id'', M [(''$in'', A (map V ids))])] st1 of
               ((info, err), st2) \<Rightarrow>
                 ((case info of None \<Rightarrow> 0 | Some n \<Rightarrow> n, if err = None then Err ctx else err), st2)))
       \<and> (Window q' = Some w \<and> distinct (map d_id (docs st')) \<and> 0 <s w_Limit w \<longrightarrow>
          Clear ref_translator (NewHandler ref_collection) ctx' q' st' =
            (let win = take (nat (sint (w_Limit w)))
                         (drop (nat (sint (w_Offset w)))
                            (sort_docs (Sort q') (filter (matches (Predicate q')) (docs st'))))
             in ((len win, Err ctx'),
                 \<lparr>docs = filter (\<lambda>d. d \<notin> set win) (docs st'),
                  log = log st' @
                        [FindReq (Predicate q')
                           \<lparr>opt_Sort = Sort q', opt_Skip = Some (w_Offset w), opt_Limit = Some (w_Limit w),
                            opt_Projection = Some [(''_id'', V (VInt 1))]\<rparr>,
                         DeleteManyReq [(''_id'', M [(''$in'', A (map V (map d_id win)))])]]\<rparr>)))"
proof (intro conjI impI)
  assume a: "Window q \<noteq> None \<and> getQuery tr q = Inr qry \<and> m ctx = Inr c
          \<and> c_Find c ctx qry (SetProjection (applyWindow tr (getSort tr q) (Window q))
                                 [(''_id'', V (VInt 1))]) st = ((request, None), st1)
          \<and> selectIDs tr ctx request = Inr ids"
  obtain info err st2 where
    del: "c_DeleteMany c ctx [(''_id'', M [(''$in'', A (map V ids))])] st1 = ((info, err), st2)"
    by (metis surj_pair)
  from a del show "Clear tr m ctx q st =
            (case c_DeleteMany c ctx [(''_id'', M [(''$in'', A (map V ids))])] st1 of
               ((info, err), st2) \<Rightarrow>
                 ((case info of None \<Rightarrow> 0 | Some n \<Rightarrow> n, if err = None then Err ctx else err), st2))"
    using Clear_windowed [of tr q qry m ctx c st request st1 ids info err st2]
    by simp
next
  assume "Window q' = Some w \<and> distinct (map d_id (docs st')) \<and> 0 <s w_Limit w"
  then show "Clear ref_translator (NewHandler ref_collection) ctx' q' st' =
            (let win = take (nat (sint (w_Limit w)))
                         (drop (nat (sint (w_Offset w)))
                            (sort_docs (Sort q') (filter (matches (Predicate q')) (docs st'))))
             in ((len win, Err ctx'),
                 \<lparr>docs = filter (\<lambda>d. d \<notin> set win) (docs st'),
                  log = log st' @
                        [FindReq (Predicate q')
                           \<lparr>opt_Sort = Sort q', opt_Skip = Some (w_Offset w), opt_Limit = Some (w_Limit w),
                            opt_Projection = Some [(''_id'', V (VInt 1))]\<rparr>,
                         DeleteManyReq [(''_id'', M [(''$in'', A (map V (map d_id win)))])]]\<rparr>))"
    unfolding Let_def using Clear_window_reference [of q' w st' ctx'] by simp
qed

theorem Clear_window_witness:
  "map d_id (sort_docs [(''rank'', V (VInt 1))]
               (filter (matches [(''kind'', V (VString ''a''))]) (docs twelve_docs)))
     = [VInt 2, VInt 6, VInt 8, VInt 10, VInt 12, VInt 1, VInt 3, VInt 5, VInt 7, VInt 11]
   \<and> Clear ref_translator (NewHandler ref_collection) (Ctx None)
        (by_rank [(''kind'', V (VString ''a''))] (Some \<lparr>w_Offset = 2, w_Limit = 3\<rparr>)) twelve_docs
     = ((3, None),
        \<lparr>docs = [example_doc 1 7 ''a'', example_doc 2 1 ''a'', example_doc 3 8 ''a'',
                 example_doc 4 2 ''b'', example_doc 5 9 ''a'', example_doc 6 3 ''a'',
                 example_doc 7 10 ''a'', example_doc 9 11 ''b'', example_doc 11 12 ''a''],
         log = [FindReq [(''kind'', V (VString ''a''))]
                  \<lparr>opt_Sort = [(''rank'', V (VInt 1))], opt_Skip = Some 2, opt_Limit = Some 3,
                   opt_Projection = Some [(''_id'', V (VInt 1))]\<rparr>,
                DeleteManyReq [(''_id'', M [(''$in'', A [V (VInt 8), V (VInt 10), V (VInt 12)])])]]\<rparr>)"
proof -
  have sorted:
    "sort_docs [(''rank'', V (VInt 1))] (filter (matches [(''kind'', V (VString ''a''))]) (docs twelve_docs))
     = [example_doc 2 1 ''a'', example_doc 6 3 ''a'', example_doc 8 4 ''a'', example_doc 10 5 ''a'',
        example_doc 12 6 ''a'', example_doc 1 7 ''a'', example_doc 3 8 ''a'', example_doc 5 9 ''a'',
        example_doc 7 10 ''a'', example_doc 11 12 ''a'']"
    by (simp add: sort_docs_def key_le_def sort_by_def matches_def field_def twelve_docs_def example_doc_def)
  have win: "take (nat (sint (3 :: go_int))) (drop (nat (sint (2 :: go_int)))
               [example_doc 2 1 ''a'', example_doc 6 3 ''a'', example_doc 8 4 ''a'', example_doc 10 5 ''a'',
                example_doc 12 6 ''a'', example_doc 1 7 ''a'', example_doc 3 8 ''a'', example_doc 5 9 ''a'',
                example_doc 7 10 ''a'', example_doc 11 12 ''a''])
             = [example_doc 8 4 ''a'', example_doc 10 5 ''a'', example_doc 12 6 ''a'']"
    by simp
  have ids: "distinct (map d_id (docs twelve_docs))"
    by (simp add: twelve_docs_def example_doc_def)
  have rest: "filter (\<lambda>d. d \<notin> set [example_doc 8 4 ''a'', example_doc 10 5 ''a'', example_doc 12 6 ''a''])
                (docs twelve_docs)
              = [example_doc 1 7 ''a'', example_doc 2 1 ''a'', example_doc 3 8 ''a'',
                 example_doc 4 2 ''b'', example_doc 5 9 ''a'', example_doc 6 3 ''a'',
                 example_doc 7 10 ''a'', example_doc 9 11 ''b'', example_doc 11 12 ''a'']"
    by (simp add: twelve_docs_def example_doc_def)
  have 1: "map d_id (sort_docs [(''rank'', V (VInt 1))]
               (filter (matches [(''kind'', V (VString ''a''))]) (docs twelve_docs)))
     = [VInt 2, VInt 6, VInt 8, VInt 10, VInt 12, VInt 1, VInt 3, VInt 5, VInt 7, VInt 11]"
    by (simp add: sorted) (simp add: example_doc_def)
  have 2: "Clear ref_translator (NewHandler ref_collection) (Ctx None)
        (by_rank [(''kind'', V (VString ''a''))] (Some \<lparr>w_Offset = 2, w_Limit = 3\<rparr>)) twelve_docs
     = ((3, None),
        \<lparr>docs = [example_doc 1 7 ''a'', example_doc 2 1 ''a'', example_doc 3 8 ''a'',
                 example_doc 4 2 ''b'', example_doc 5 9 ''a'', example_doc 6 3 ''a'',
                 example_doc 7 10 ''a'', example_doc 9 11 ''b'', example_doc 11 12 ''a''],
         log = [FindReq [(''kind'', V (VString ''a''))]
                  \<lparr>opt_Sort = [(''rank'', V (VInt 1))], opt_Skip = Some 2, opt_Limit = Some 3,
                   opt_Projection = Some [(''_id'', V (VInt 1))]\<rparr>,
                DeleteManyReq [(''_id'', M [(''$in'', A [V (VInt 8), V (VInt 10), V (VInt 12)])])]]\<rparr>)"
    using Clear_window [THEN conjunct2, rule_format,
            of "by_rank [(''kind'', V (VString ''a''))] (Some \<lparr>w_Offset = 2, w_Limit = 3\<rparr>)"
               "\<lparr>w_Offset = 2, w_Limit = 3\<rparr>" twelve_docs "Ctx None"] ids
    by (simp add: by_rank_def word_sless_alt sorted win rest Let_def len_def)
       (simp add: twelve_docs_def example_doc_def)
  from 1 2 show ?thesis by (rule conjI)
qed

end
